theory Spec2Isabelle
  imports Complex_Main
begin

section \<open>The domain classes of desafio_poo.py\<close>

text \<open>
  The bank simulator keeps its whole state in Python objects. Amounts (\<open>valor\<close>,
  \<open>_saldo\<close>, \<open>_limite\<close>) are Python numbers; they are modelled as exact numbers of type
  \<open>real\<close>, so rounding, infinities and NaN of binary floating point are outside the model.
  Object references are natural numbers (addresses into an object store).

  Every \<open>print\<close> of the program is one value of the type \<open>saida\<close>, and every prompt of an
  \<open>input\<close> call one value of \<open>pergunta\<close>; the constructors stand for the literal texts below.
\<close>

type_synonym ref = nat

datatype pergunta =
    PMenu               \<comment> \<open>the menu text, ending in "=> "\<close>
  | PCpfCliente         \<comment> \<open>"Informe o CPF do cliente: "\<close>
  | PValorDeposito      \<comment> \<open>"Informe o valor do deposito: "\<close>
  | PValorSaque         \<comment> \<open>"Informe o valor do saque: "\<close>
  | PEscolhaConta       \<comment> \<open>"Digite o numero da conta desejada: "\<close>
  | PCpfNovo            \<comment> \<open>"Informe o CPF (somente numero): "\<close>
  | PNome               \<comment> \<open>"Informe o nome completo: "\<close>
  | PDataNascimento     \<comment> \<open>"Informe a data de nascimento (dd-mm-aaaa): "\<close>
  | PEndereco           \<comment> \<open>"Informe o endereco (logradouro, nro - bairro - cidade/sigla estado): "\<close>

record registro =
  tipo :: string
  valor :: real
  data :: string

datatype saida =
    SaldoInsuficiente   \<comment> \<open>"Operacao falhou! Voce nao tem saldo suficiente."\<close>
  | SaqueRealizado      \<comment> \<open>"Saque realizado com sucesso!"\<close>
  | ValorInvalido       \<comment> \<open>"Operacao falhou! O valor informado e invalido."\<close>
  | DepositoRealizado   \<comment> \<open>"Deposito realizado com sucesso!"\<close>
  | ExcedeLimite        \<comment> \<open>"Operacao falhou! O valor do saque excede o limite."\<close>
  | ExcedeSaques        \<comment> \<open>"Operacao falhou! Numero maximo de saques excedido."\<close>
  | ClienteSemConta     \<comment> \<open>"Cliente nao possui conta!"\<close>
  | MaisDeUmaConta      \<comment> \<open>"O cliente possui mais de uma conta. Por favor, escolha uma:"\<close>
  | ItemConta int int   \<comment> \<open>"[i + 1] Conta Corrente n: numero"\<close>
  | OpcaoInvalida       \<comment> \<open>"Opcao invalida. Por favor, escolha um numero da lista."\<close>
  | EntradaInvalida     \<comment> \<open>"Entrada invalida. Por favor, digite um numero."\<close>
  | ClienteNaoEncontrado \<comment> \<open>"Cliente nao encontrado!"\<close>
  | DepositoCancelado   \<comment> \<open>"Valor invalido! A operacao de deposito foi cancelada."\<close>
  | SaqueCancelado      \<comment> \<open>"Valor invalido! A operacao de saque foi cancelada."\<close>
  | ExtratoCabecalho    \<comment> \<open>"================ EXTRATO ================"\<close>
  | ExtratoMovimentos "registro list" \<comment> \<open>the text \<open>extrato\<close> built from the entries\<close>
  | ExtratoSaldo real   \<comment> \<open>"Saldo: R$ saldo"\<close>
  | ExtratoRodape       \<comment> \<open>"=========================================="\<close>
  | ClienteJaExiste     \<comment> \<open>"Ja existe cliente com esse CPF!"\<close>
  | ClienteCriado       \<comment> \<open>"Cliente criado com sucesso!"\<close>
  | ClienteNaoEncontradoNovaConta \<comment> \<open>"Cliente nao encontrado. Por favor, crie um novo usuario ..."\<close>
  | ContaCriada         \<comment> \<open>"Conta criada com sucesso!"\<close>
  | NenhumaConta        \<comment> \<open>"Nenhuma conta foi criada ainda."\<close>
  | Separador           \<comment> \<open>"=" * 100\<close>
  | TextoConta string int string \<comment> \<open>\<open>str(conta)\<close> of a ContaCorrente: agencia, numero, nome\<close>
  | TextoObjeto         \<comment> \<open>\<open>str(conta)\<close> of a plain Conta: the default text of an object\<close>
  | Saindo              \<comment> \<open>"Saindo do sistema... Obrigado por usar nosso banco!"\<close>
  | OperacaoInvalida    \<comment> \<open>"Operacao invalida, por favor selecione novamente ..."\<close>
  | Pergunta pergunta   \<comment> \<open>the prompt written by \<open>input\<close>\<close>

subsection \<open>Cliente and PessoaFisica\<close>

record cliente =
  endereco :: string
  contas :: "ref list"

record pessoa_fisica = cliente +
  nome :: string
  data_nascimento :: string
  cpf :: string

definition PessoaFisica_init :: "string \<Rightarrow> string \<Rightarrow> string \<Rightarrow> string \<Rightarrow> pessoa_fisica" where
  "PessoaFisica_init nome' data_nascimento' cpf' endereco' =
     \<lparr>endereco = endereco', contas = [], nome = nome',
      data_nascimento = data_nascimento', cpf = cpf'\<rparr>"

definition adicionar_conta :: "'a cliente_scheme \<Rightarrow> ref \<Rightarrow> 'a cliente_scheme" where
  "adicionar_conta self conta = self\<lparr>contas := contas self @ [conta]\<rparr>"

subsection \<open>Conta\<close>

text \<open>
  \<open>Conta.__init__\<close> creates the \<open>Historico\<close> object with its empty list \<open>_transacoes\<close>; the
  history belongs to exactly one account and is modelled as the field \<open>historico\<close>.
  A method returns its Python result, the lines it printed and the object after the call.
\<close>

record conta =
  saldo :: real
  numero :: int
  agencia :: string
  cliente :: ref
  historico :: "registro list"


definition Conta_sacar :: "'a conta_scheme \<Rightarrow> real \<Rightarrow> bool \<times> saida list \<times> 'a conta_scheme" where
  "Conta_sacar self v =
     (let saldo' = saldo self;
          excedeu_saldo = v > saldo'
      in if excedeu_saldo then (False, [SaldoInsuficiente], self)
         else if v > 0 then (True, [SaqueRealizado], self\<lparr>saldo := saldo self - v\<rparr>)
         else (False, [ValorInvalido], self))"

definition Conta_depositar :: "'a conta_scheme \<Rightarrow> real \<Rightarrow> bool \<times> saida list \<times> 'a conta_scheme" where
  "Conta_depositar self v =
     (if v > 0 then (True, [DepositoRealizado], self\<lparr>saldo := saldo self + v\<rparr>)
      else (False, [ValorInvalido], self))"

subsection \<open>Transacao, Saque and Deposito\<close>

datatype transacao = Saque real | Deposito real

fun valor_de :: "transacao \<Rightarrow> real" where
  "valor_de (Saque v) = v"
| "valor_de (Deposito v) = v"

text \<open>\<open>transacao.__class__.__name__\<close>\<close>

fun nome_da_classe :: "transacao \<Rightarrow> string" where
  "nome_da_classe (Saque v) = ''Saque''"
| "nome_da_classe (Deposito v) = ''Deposito''"

text \<open>\<open>Saque.__name__\<close>\<close>

definition Saque_nome :: string where
  "Saque_nome = ''Saque''"

subsection \<open>ContaCorrente\<close>

record conta_corrente = conta +
  limite :: real
  limite_saques :: int

definition ContaCorrente_init :: "int \<Rightarrow> ref \<Rightarrow> real \<Rightarrow> int \<Rightarrow> conta_corrente" where
  "ContaCorrente_init numero' cliente' limite' limite_saques' =
     \<lparr>saldo = 0, numero = numero', agencia = ''0001'', cliente = cliente', historico = [],
      limite = limite', limite_saques = limite_saques'\<rparr>"

text \<open>\<open>ContaCorrente.nova_conta(cliente, numero)\<close> is \<open>cls(numero, cliente)\<close> with the defaults
  \<open>limite=500\<close> and \<open>limite_saques=3\<close>.\<close>

definition ContaCorrente_nova_conta :: "ref \<Rightarrow> int \<Rightarrow> conta_corrente" where
  "ContaCorrente_nova_conta cliente' numero' = ContaCorrente_init numero' cliente' 500 3"

definition numero_saques :: "registro list \<Rightarrow> nat" where
  "numero_saques transacoes = length (filter (\<lambda>t. tipo t = Saque_nome) transacoes)"

definition ContaCorrente_sacar ::
  "conta_corrente \<Rightarrow> real \<Rightarrow> bool \<times> saida list \<times> conta_corrente" where
  "ContaCorrente_sacar self v =
     (let n = numero_saques (historico self);
          excedeu_limite = v > limite self;
          excedeu_saques = int n \<ge> limite_saques self
      in if excedeu_limite then (False, [ExcedeLimite], self)
         else if excedeu_saques then (False, [ExcedeSaques], self)
         else Conta_sacar self v)"

subsection \<open>Historico\<close>

text \<open>\<open>adicionar_transacao\<close> appends the dictionary of the transaction; \<open>agora\<close> is the text
  that \<open>datetime.now().strftime\<close> returns at the call.\<close>

definition adicionar_transacao :: "registro list \<Rightarrow> transacao \<Rightarrow> string \<Rightarrow> registro list" where
  "adicionar_transacao transacoes t agora =
     transacoes @ [\<lparr>tipo = nome_da_classe t, valor = valor_de t, data = agora\<rparr>]"

subsection \<open>Method dispatch on the class of the account object\<close>

datatype objeto_conta = Conta conta | ContaCorrente conta_corrente

fun conta_sacar :: "objeto_conta \<Rightarrow> real \<Rightarrow> bool \<times> saida list \<times> objeto_conta" where
  "conta_sacar (Conta c) v = (case Conta_sacar c v of (ok, out, c') \<Rightarrow> (ok, out, Conta c'))"
| "conta_sacar (ContaCorrente c) v =
     (case ContaCorrente_sacar c v of (ok, out, c') \<Rightarrow> (ok, out, ContaCorrente c'))"

fun conta_depositar :: "objeto_conta \<Rightarrow> real \<Rightarrow> bool \<times> saida list \<times> objeto_conta" where
  "conta_depositar (Conta c) v = (case Conta_depositar c v of (ok, out, c') \<Rightarrow> (ok, out, Conta c'))"
| "conta_depositar (ContaCorrente c) v =
     (case Conta_depositar c v of (ok, out, c') \<Rightarrow> (ok, out, ContaCorrente c'))"

fun saldo_de :: "objeto_conta \<Rightarrow> real" where
  "saldo_de (Conta c) = saldo c"
| "saldo_de (ContaCorrente c) = saldo c"

fun numero_de :: "objeto_conta \<Rightarrow> int" where
  "numero_de (Conta c) = numero c"
| "numero_de (ContaCorrente c) = numero c"

fun agencia_de :: "objeto_conta \<Rightarrow> string" where
  "agencia_de (Conta c) = agencia c"
| "agencia_de (ContaCorrente c) = agencia c"

fun cliente_de :: "objeto_conta \<Rightarrow> ref" where
  "cliente_de (Conta c) = cliente c"
| "cliente_de (ContaCorrente c) = cliente c"

fun historico_de :: "objeto_conta \<Rightarrow> registro list" where
  "historico_de (Conta c) = historico c"
| "historico_de (ContaCorrente c) = historico c"

fun com_historico :: "objeto_conta \<Rightarrow> registro list \<Rightarrow> objeto_conta" where
  "com_historico (Conta c) h = Conta (c\<lparr>historico := h\<rparr>)"
| "com_historico (ContaCorrente c) h = ContaCorrente (c\<lparr>historico := h\<rparr>)"

text \<open>
  \<open>Saque.registrar\<close> and \<open>Deposito.registrar\<close>: call the account's method and, when it
  returned \<open>True\<close>, add the transaction to the account's history. Both return \<open>None\<close>.
\<close>

fun registrar :: "transacao \<Rightarrow> objeto_conta \<Rightarrow> string \<Rightarrow> saida list \<times> objeto_conta" where
  "registrar (Saque v) c agora =
     (case conta_sacar c v of (sucesso_transacao, out, c') \<Rightarrow>
        if sucesso_transacao
        then (out, com_historico c' (adicionar_transacao (historico_de c') (Saque v) agora))
        else (out, c'))"
| "registrar (Deposito v) c agora =
     (case conta_depositar c v of (sucesso_transacao, out, c') \<Rightarrow>
        if sucesso_transacao
        then (out, com_historico c' (adicionar_transacao (historico_de c') (Deposito v) agora))
        else (out, c'))"

text \<open>The local \<open>sucesso_transacao\<close> of \<open>registrar\<close>: what the account's method returned.\<close>

fun sucesso_transacao :: "transacao \<Rightarrow> objeto_conta \<Rightarrow> bool" where
  "sucesso_transacao (Saque v) c = fst (conta_sacar c v)"
| "sucesso_transacao (Deposito v) c = fst (conta_depositar c v)"

text \<open>\<open>Cliente.realizar_transacao\<close> delegates to \<open>transacao.registrar(conta)\<close>.\<close>

definition Cliente_realizar_transacao ::
  "objeto_conta \<Rightarrow> transacao \<Rightarrow> string \<Rightarrow> saida list \<times> objeto_conta" where
  "Cliente_realizar_transacao c t agora = registrar t c agora"

section \<open>Runs of operations on one account\<close>

text \<open>
  What can be done to an account object: a direct call of its method \<open>sacar\<close> or
  \<open>depositar\<close>, or a transaction handed to \<open>Cliente.realizar_transacao\<close> at the clock
  reading \<open>agora\<close>. An operation succeeds when the account's method returns \<open>True\<close>.
\<close>

datatype operacao = OpSacar real | OpDepositar real | OpTransacao transacao string

fun executar :: "operacao \<Rightarrow> objeto_conta \<Rightarrow> objeto_conta" where
  "executar (OpSacar v) c = snd (snd (conta_sacar c v))"
| "executar (OpDepositar v) c = snd (snd (conta_depositar c v))"
| "executar (OpTransacao t agora) c = snd (Cliente_realizar_transacao c t agora)"

fun sucesso :: "operacao \<Rightarrow> objeto_conta \<Rightarrow> bool" where
  "sucesso (OpSacar v) c = fst (conta_sacar c v)"
| "sucesso (OpDepositar v) c = fst (conta_depositar c v)"
| "sucesso (OpTransacao t agora) c = sucesso_transacao t c"

fun executar_todas :: "operacao list \<Rightarrow> objeto_conta \<Rightarrow> objeto_conta" where
  "executar_todas [] c = c"
| "executar_todas (op # ops) c = executar_todas ops (executar op c)"

text \<open>The operations of a run, each with its outcome on the state it was applied to.\<close>

fun resultados :: "operacao list \<Rightarrow> objeto_conta \<Rightarrow> (operacao \<times> bool) list" where
  "resultados [] c = []"
| "resultados (op # ops) c = (op, sucesso op c) # resultados ops (executar op c)"






text \<open>The history entry that a successfully applied transaction is expected to leave.\<close>

fun registro_de :: "operacao \<times> bool \<Rightarrow> registro list" where
  "registro_de (OpTransacao t agora, True) =
     [\<lparr>tipo = nome_da_classe t, valor = valor_de t, data = agora\<rparr>]"
| "registro_de _ = []"

fun transacao_aplicada :: "operacao \<times> bool \<Rightarrow> bool" where
  "transacao_aplicada (OpTransacao t agora, ok) = ok"
| "transacao_aplicada _ = False"

section \<open>The functions of the text interface\<close>

text \<open>
  The functions below \<open>menu\<close> read the standard input and print. The world they run in
  holds the lines still to be read, the lines printed so far, the two object stores (a
  reference is a position in its store; objects are never freed) and the two lists
  \<open>clientes\<close> and \<open>contas\<close> that \<open>main\<close> creates and passes around.
  \<open>input\<close> on an exhausted standard input raises \<open>EOFError\<close>, which no function of the
  program catches.

  Three things come from outside the program and are parameters: \<open>float(s)\<close> and \<open>int(s)\<close>
  (\<open>None\<close> stands for \<open>ValueError\<close>) and the clock, read as the formatted time shown
  during the given iteration of the menu loop.
\<close>

datatype excecao = EOFError

record ambiente =
  py_float :: "string \<Rightarrow> real option"
  py_int :: "string \<Rightarrow> int option"
  relogio :: "nat \<Rightarrow> string"

record mundo =
  stdin :: "string list"
  stdout :: "saida list"
  instante :: nat
  pessoas :: "pessoa_fisica list"
  objetos :: "objeto_conta list"
  lista_clientes :: "ref list"
  lista_contas :: "ref list"

type_synonym 'a io = "mundo \<Rightarrow> (excecao + 'a) \<times> mundo"

definition retorna :: "'a \<Rightarrow> 'a io" where
  "retorna x w = (Inr x, w)"

definition seq :: "'a io \<Rightarrow> ('a \<Rightarrow> 'b io) \<Rightarrow> 'b io" where
  "seq m f w = (case m w of (Inl e, w') \<Rightarrow> (Inl e, w') | (Inr x, w') \<Rightarrow> f x w')"

definition print :: "saida \<Rightarrow> unit io" where
  "print s w = (Inr (), w\<lparr>stdout := stdout w @ [s]\<rparr>)"

definition input :: "pergunta \<Rightarrow> string io" where
  "input p w =
     (case stdin w of
        [] \<Rightarrow> (Inl EOFError, w\<lparr>stdout := stdout w @ [Pergunta p]\<rparr>)
      | l # ls \<Rightarrow> (Inr l, w\<lparr>stdin := ls, stdout := stdout w @ [Pergunta p]\<rparr>))"

definition menu :: "string io" where
  "menu = input PMenu"

definition filtrar_cliente :: "string \<Rightarrow> ref list \<Rightarrow> pessoa_fisica list \<Rightarrow> ref option" where
  "filtrar_cliente cpf' clientes ps =
     (let clientes_filtrados = filter (\<lambda>c. cpf (ps ! c) = cpf') clientes
      in case clientes_filtrados of [] \<Rightarrow> None | c # _ \<Rightarrow> Some c)"

text \<open>The \<open>for\<close> loop of \<open>recuperar_conta_cliente\<close> over \<open>enumerate(cliente.contas)\<close>.\<close>

fun listar_opcoes :: "nat \<Rightarrow> ref list \<Rightarrow> unit io" where
  "listar_opcoes i [] w = (Inr (), w)"
| "listar_opcoes i (c # cs) w =
     seq (print (ItemConta (int i + 1) (numero_de (objetos w ! c))))
         (\<lambda>_. listar_opcoes (Suc i) cs) w"

text \<open>The \<open>while True\<close> loop of \<open>recuperar_conta_cliente\<close>: each round reads one line.\<close>

function escolher_conta :: "ambiente \<Rightarrow> ref list \<Rightarrow> ref option io" where
  "escolher_conta amb cs w =
     (case input PEscolhaConta w of
        (Inl e, w') \<Rightarrow> (Inl e, w')
      | (Inr l, w') \<Rightarrow>
          (case py_int amb l of
             None \<Rightarrow> escolher_conta amb cs (snd (print EntradaInvalida w'))
           | Some escolha \<Rightarrow>
               if 1 \<le> escolha \<and> escolha \<le> int (length cs)
               then (Inr (Some (cs ! nat (escolha - 1))), w')
               else escolher_conta amb cs (snd (print OpcaoInvalida w'))))"
  by pat_completeness auto
termination
  by (relation "measure (\<lambda>(amb, cs, w). length (stdin w))")
     (auto simp: input_def print_def split: list.splits)

definition recuperar_conta_cliente :: "ambiente \<Rightarrow> ref \<Rightarrow> ref option io" where
  "recuperar_conta_cliente amb c w =
     (let cs = contas (pessoas w ! c)
      in if cs = [] then seq (print ClienteSemConta) (\<lambda>_. retorna None) w
         else if length cs = 1 then retorna (Some (cs ! 0)) w
         else seq (print MaisDeUmaConta)
                (\<lambda>_. seq (listar_opcoes 0 cs) (\<lambda>_. escolher_conta amb cs)) w)"

text \<open>The call \<open>cliente.realizar_transacao(conta, transacao)\<close> on the stored account.\<close>

definition chamar_realizar_transacao :: "ambiente \<Rightarrow> ref \<Rightarrow> transacao \<Rightarrow> unit io" where
  "chamar_realizar_transacao amb r t w =
     (case Cliente_realizar_transacao (objetos w ! r) t (relogio amb (instante w)) of
        (out, c') \<Rightarrow> (Inr (), w\<lparr>stdout := stdout w @ out, objetos := (objetos w)[r := c']\<rparr>))"

definition depositar :: "ambiente \<Rightarrow> unit io" where
  "depositar amb =
     seq (input PCpfCliente) (\<lambda>cpf' w.
       case filtrar_cliente cpf' (lista_clientes w) (pessoas w) of
         None \<Rightarrow> print ClienteNaoEncontrado w
       | Some c \<Rightarrow>
           seq (input PValorDeposito) (\<lambda>l.
             case py_float amb l of
               None \<Rightarrow> print DepositoCancelado
             | Some v \<Rightarrow>
                 seq (recuperar_conta_cliente amb c) (\<lambda>conta.
                   case conta of
                     None \<Rightarrow> retorna ()
                   | Some r \<Rightarrow> chamar_realizar_transacao amb r (Deposito v))) w)"

definition sacar :: "ambiente \<Rightarrow> unit io" where
  "sacar amb =
     seq (input PCpfCliente) (\<lambda>cpf' w.
       case filtrar_cliente cpf' (lista_clientes w) (pessoas w) of
         None \<Rightarrow> print ClienteNaoEncontrado w
       | Some c \<Rightarrow>
           seq (input PValorSaque) (\<lambda>l.
             case py_float amb l of
               None \<Rightarrow> print SaqueCancelado
             | Some v \<Rightarrow>
                 seq (recuperar_conta_cliente amb c) (\<lambda>conta.
                   case conta of
                     None \<Rightarrow> retorna ()
                   | Some r \<Rightarrow> chamar_realizar_transacao amb r (Saque v))) w)"

definition exibir_extrato :: "ambiente \<Rightarrow> unit io" where
  "exibir_extrato amb =
     seq (input PCpfCliente) (\<lambda>cpf' w.
       case filtrar_cliente cpf' (lista_clientes w) (pessoas w) of
         None \<Rightarrow> print ClienteNaoEncontrado w
       | Some c \<Rightarrow>
           seq (recuperar_conta_cliente amb c) (\<lambda>conta.
             case conta of
               None \<Rightarrow> retorna ()
             | Some r \<Rightarrow>
                 seq (print ExtratoCabecalho) (\<lambda>_ w1.
                   seq (print (ExtratoMovimentos (historico_de (objetos w1 ! r)))) (\<lambda>_ w2.
                     seq (print (ExtratoSaldo (saldo_de (objetos w2 ! r))))
                         (\<lambda>_. print ExtratoRodape) w2) w1)) w)"

definition criar_cliente :: "unit io" where
  "criar_cliente =
     seq (input PCpfNovo) (\<lambda>cpf' w.
       case filtrar_cliente cpf' (lista_clientes w) (pessoas w) of
         Some c \<Rightarrow> print ClienteJaExiste w
       | None \<Rightarrow>
           seq (input PNome) (\<lambda>nome'.
             seq (input PDataNascimento) (\<lambda>data_nascimento'.
               seq (input PEndereco) (\<lambda>endereco' w1.
                 print ClienteCriado
                   (w1\<lparr>pessoas := pessoas w1 @
                          [PessoaFisica_init nome' data_nascimento' cpf' endereco'],
                       lista_clientes := lista_clientes w1 @ [length (pessoas w1)]\<rparr>)))) w)"

definition criar_conta :: "int \<Rightarrow> ref option io" where
  "criar_conta numero_conta =
     seq (input PCpfCliente) (\<lambda>cpf' w.
       case filtrar_cliente cpf' (lista_clientes w) (pessoas w) of
         None \<Rightarrow> seq (print ClienteNaoEncontradoNovaConta) (\<lambda>_. retorna None) w
       | Some c \<Rightarrow>
           (let conta = length (objetos w)
            in seq (print ContaCriada) (\<lambda>_. retorna (Some conta))
                 (w\<lparr>objetos := objetos w @ [ContaCorrente (ContaCorrente_nova_conta c numero_conta)],
                    pessoas := (pessoas w)[c := adicionar_conta (pessoas w ! c) conta]\<rparr>)))"

text \<open>\<open>str(conta)\<close>: only \<open>ContaCorrente\<close> defines \<open>__str__\<close>.\<close>

fun texto_conta :: "pessoa_fisica list \<Rightarrow> objeto_conta \<Rightarrow> saida" where
  "texto_conta ps (ContaCorrente c) = TextoConta (agencia c) (numero c) (nome (ps ! cliente c))"
| "texto_conta ps (Conta c) = TextoObjeto"

fun listar_cada :: "ref list \<Rightarrow> unit io" where
  "listar_cada [] w = (Inr (), w)"
| "listar_cada (r # rs) w =
     seq (print Separador)
         (\<lambda>_ w1. seq (print (texto_conta (pessoas w1) (objetos w1 ! r))) (\<lambda>_. listar_cada rs) w1) w"

definition listar_contas :: "unit io" where
  "listar_contas w =
     (if lista_contas w = [] then print NenhumaConta w else listar_cada (lista_contas w) w)"

text \<open>
  One round of the loop of \<open>main\<close>; the result says whether the loop goes on (\<open>False\<close>
  is the \<open>break\<close> of option \<open>q\<close>).
\<close>

definition iteracao :: "ambiente \<Rightarrow> bool io" where
  "iteracao amb =
     seq menu (\<lambda>opcao.
       if opcao = ''d'' then seq (depositar amb) (\<lambda>_. retorna True)
       else if opcao = ''s'' then seq (sacar amb) (\<lambda>_. retorna True)
       else if opcao = ''e'' then seq (exibir_extrato amb) (\<lambda>_. retorna True)
       else if opcao = ''nu'' then seq criar_cliente (\<lambda>_. retorna True)
       else if opcao = ''nc'' then
         (\<lambda>w. let numero_conta = int (length (lista_contas w)) + 1
              in seq (criar_conta numero_conta) (\<lambda>nova_conta.
                   case nova_conta of
                     None \<Rightarrow> retorna True
                   | Some r \<Rightarrow> (\<lambda>w1. (Inr True, w1\<lparr>lista_contas := lista_contas w1 @ [r]\<rparr>))) w)
       else if opcao = ''lc'' then seq listar_contas (\<lambda>_. retorna True)
       else if opcao = ''q'' then seq (print Saindo) (\<lambda>_. retorna False)
       else seq (print OperacaoInvalida) (\<lambda>_. retorna True))"

subsection \<open>The loop of main\<close>

text \<open>
  The loop ends at option \<open>q\<close> or with the \<open>EOFError\<close> of an exhausted standard input.
  Every round reads at least the menu line and no function puts a line back, so the
  number of lines left to read decreases from round to round.
\<close>

lemma stdin_retorna: "stdin (snd (retorna x w)) = stdin w"
  by (simp add: retorna_def)

lemma stdin_print: "stdin (snd (print s w)) = stdin w"
  by (simp add: print_def)

lemma stdin_input: "length (stdin (snd (input p w))) \<le> length (stdin w)"
  by (simp add: input_def split: list.split)

lemma stdin_input_Inr: "input p w = (Inr l, w1) \<Longrightarrow> length (stdin w1) < length (stdin w)"
  by (auto simp: input_def split: list.splits)

lemma stdin_seq:
  assumes "length (stdin (snd (m w))) \<le> length (stdin w)"
    and "\<And>x w1. length (stdin (snd (f x w1))) \<le> length (stdin w1)"
  shows "length (stdin (snd (seq m f w))) \<le> length (stdin w)"
proof (cases "m w")
  case (Pair r w1)
  show ?thesis
  proof (cases r)
    case (Inl e)
    then show ?thesis using Pair assms(1) by (simp add: seq_def)
  next
    case (Inr x)
    then show ?thesis using Pair assms(1) assms(2) [of x w1] by (simp add: seq_def)
  qed
qed

lemma stdin_listar_opcoes: "stdin (snd (listar_opcoes i cs w)) = stdin w"
  by (induction cs arbitrary: i w) (simp_all add: seq_def print_def)

lemma stdin_escolher_conta:
  "length (stdin (snd (escolher_conta amb cs w))) \<le> length (stdin w)"
proof (induction amb cs w rule: escolher_conta.induct)
  case (1 amb cs w)
  show ?case
  proof (cases "stdin w")
    case Nil
    then show ?thesis by (subst escolher_conta.simps) (simp add: input_def)
  next
    case (Cons l ls)
    let ?w' = "w\<lparr>stdin := ls, stdout := stdout w @ [Pergunta PEscolhaConta]\<rparr>"
    have inp: "input PEscolhaConta w = (Inr l, ?w')" using Cons by (simp add: input_def)
    show ?thesis
    proof (cases "py_int amb l")
      case None
      from "1.IH"(1) [OF inp [symmetric] refl None]
      show ?thesis using inp None Cons
        by (subst escolher_conta.simps) (simp add: print_def)
    next
      case (Some escolha)
      show ?thesis
      proof (cases "1 \<le> escolha \<and> escolha \<le> int (length cs)")
        case True
        then show ?thesis using inp Some Cons
          by (subst escolher_conta.simps) simp
      next
        case False
        from "1.IH"(2) [OF inp [symmetric] refl Some False]
        show ?thesis using inp Some Cons False
          by (subst escolher_conta.simps) (simp add: print_def)
      qed
    qed
  qed
qed

declare escolher_conta.simps [simp del]

lemma stdin_recuperar:
  "length (stdin (snd (recuperar_conta_cliente amb c w))) \<le> length (stdin w)"
  unfolding recuperar_conta_cliente_def Let_def
  by (auto intro!: stdin_seq simp: stdin_retorna stdin_print stdin_listar_opcoes
        stdin_escolher_conta)

lemma stdin_chamar: "stdin (snd (chamar_realizar_transacao amb r t w)) = stdin w"
  by (simp add: chamar_realizar_transacao_def split: prod.split)

lemma stdin_depositar: "length (stdin (snd (depositar amb w))) \<le> length (stdin w)"
  unfolding depositar_def
  by (auto intro!: stdin_seq stdin_input stdin_recuperar
        simp: stdin_retorna stdin_print stdin_chamar split: option.split)

lemma stdin_sacar: "length (stdin (snd (sacar amb w))) \<le> length (stdin w)"
  unfolding sacar_def
  by (auto intro!: stdin_seq stdin_input stdin_recuperar
        simp: stdin_retorna stdin_print stdin_chamar split: option.split)

lemma stdin_exibir_extrato: "length (stdin (snd (exibir_extrato amb w))) \<le> length (stdin w)"
  unfolding exibir_extrato_def
  by (auto intro!: stdin_seq stdin_input stdin_recuperar
        simp: stdin_retorna stdin_print split: option.split)

lemma stdin_criar_cliente: "length (stdin (snd (criar_cliente w))) \<le> length (stdin w)"
  unfolding criar_cliente_def
  by (auto intro!: stdin_seq stdin_input simp: stdin_retorna stdin_print split: option.split)

lemma stdin_seq_print: "stdin (snd (seq (print s) (\<lambda>_. retorna x) w)) = stdin w"
  by (simp add: seq_def print_def retorna_def)

lemma stdin_criar_conta: "length (stdin (snd (criar_conta n w))) \<le> length (stdin w)"
  unfolding criar_conta_def Let_def
  by (rule stdin_seq) (auto intro!: stdin_input simp: stdin_seq_print split: option.split)

lemma stdin_listar_cada: "stdin (snd (listar_cada rs w)) = stdin w"
  by (induction rs arbitrary: w) (simp_all add: seq_def print_def)

lemma stdin_listar_contas: "stdin (snd (listar_contas w)) = stdin w"
  by (simp add: listar_contas_def stdin_print stdin_listar_cada)

lemma stdin_seq_retorna:
  assumes "\<And>w. length (stdin (snd (m w))) \<le> length (stdin w)"
  shows "length (stdin (snd (seq m (\<lambda>_. retorna x) w))) \<le> length (stdin w)"
  by (rule stdin_seq) (simp_all add: assms stdin_retorna)

lemma stdin_nova_conta:
  "length (stdin (snd (seq (criar_conta n) (\<lambda>nova_conta.
      case nova_conta of
        None \<Rightarrow> retorna True
      | Some r \<Rightarrow> (\<lambda>w1. (Inr True, w1\<lparr>lista_contas := lista_contas w1 @ [r]\<rparr>))) w)))
   \<le> length (stdin w)"
  by (rule stdin_seq) (auto intro!: stdin_criar_conta simp: retorna_def split: option.split)

lemma stdin_iteracao:
  assumes "iteracao amb w = (Inr b, w')"
  shows "length (stdin w') < length (stdin w)"
proof -
  obtain r w1 where m: "menu w = (r, w1)" by (cases "menu w")
  show ?thesis
  proof (cases r)
    case (Inl e)
    then show ?thesis using assms m by (simp add: iteracao_def seq_def)
  next
    case (Inr opcao)
    have lt: "length (stdin w1) < length (stdin w)"
      using m Inr stdin_input_Inr by (simp add: menu_def)
    have "length (stdin (snd (iteracao amb w))) \<le> length (stdin w1)"
      using m Inr unfolding iteracao_def seq_def [of menu] Let_def
      by (simp add: stdin_seq_retorna stdin_depositar stdin_sacar stdin_exibir_extrato
            stdin_criar_cliente stdin_nova_conta stdin_listar_contas stdin_print)
    then show ?thesis using lt assms by simp
  qed
qed

function main_loop :: "ambiente \<Rightarrow> unit io" where
  "main_loop amb w =
     (case iteracao amb w of
        (Inl e, w') \<Rightarrow> (Inl e, w')
      | (Inr continua, w') \<Rightarrow>
          if continua then main_loop amb (w'\<lparr>instante := Suc (instante w')\<rparr>)
          else (Inr (), w'))"
  by pat_completeness auto
termination
  by (relation "measure (\<lambda>(amb, w). length (stdin w))")
     (auto dest: stdin_iteracao [OF sym])

declare main_loop.simps [simp del]

definition mundo_inicial :: "string list \<Rightarrow> mundo" where
  "mundo_inicial entrada =
     \<lparr>stdin = entrada, stdout = [], instante = 0, pessoas = [], objetos = [],
      lista_clientes = [], lista_contas = []\<rparr>"

definition main :: "ambiente \<Rightarrow> string list \<Rightarrow> (excecao + unit) \<times> mundo" where
  "main amb entrada = main_loop amb (mundo_inicial entrada)"

section \<open>Invariants of the program state\<close>

text \<open>The identifiers of the registered customers, in the order of the list \<open>clientes\<close>.\<close>

definition cpfs :: "mundo \<Rightarrow> string list" where
  "cpfs w = map (\<lambda>c. cpf (pessoas w ! c)) (lista_clientes w)"

text \<open>The numbers of the created accounts, in the order of the list \<open>contas\<close> of \<open>main\<close>.\<close>

definition numeros_atribuidos :: "mundo \<Rightarrow> int list" where
  "numeros_atribuidos w = map (\<lambda>r. numero_de (objetos w ! r)) (lista_contas w)"

text \<open>Every reference of the two lists of \<open>main\<close> points into its object store.\<close>

definition referencias_validas :: "mundo \<Rightarrow> bool" where
  "referencias_validas w \<longleftrightarrow>
     list_all (\<lambda>c. c < length (pessoas w)) (lista_clientes w)
     \<and> list_all (\<lambda>r. r < length (objetos w)) (lista_contas w)"

text \<open>
  A step that creates neither a customer nor an account: the customers and both lists
  are as before, and every account object keeps its number.
\<close>

definition estavel :: "mundo \<Rightarrow> mundo \<Rightarrow> bool" where
  "estavel w w' \<longleftrightarrow>
     pessoas w' = pessoas w \<and> lista_clientes w' = lista_clientes w
     \<and> lista_contas w' = lista_contas w
     \<and> map numero_de (objetos w') = map numero_de (objetos w)"

text \<open>
  What holds of the world between two rounds of the menu loop: valid references, no
  identifier registered twice, and the account numbers 1, 2, ... in order of creation.
\<close>

definition invariante :: "mundo \<Rightarrow> bool" where
  "invariante w \<longleftrightarrow>
     referencias_validas w \<and> distinct (cpfs w)
     \<and> numeros_atribuidos w = map int [1..<Suc (length (lista_contas w))]"

text \<open>What \<open>criar_conta\<close> leaves when it returns the new account \<open>r\<close> with number \<open>n\<close>.\<close>

definition conta_criada :: "int \<Rightarrow> mundo \<Rightarrow> ref \<Rightarrow> mundo \<Rightarrow> bool" where
  "conta_criada n w r w' \<longleftrightarrow>
     r = length (objetos w)
     \<and> (\<exists>obj. numero_de obj = n \<and> objetos w' = objetos w @ [obj])
     \<and> lista_clientes w' = lista_clientes w \<and> lista_contas w' = lista_contas w
     \<and> map cpf (pessoas w') = map cpf (pessoas w)"

text \<open>
  One round of the loop and the list \<open>contas\<close>: nothing changes, or one account is
  appended whose number is the former length of the list plus 1.
\<close>

definition passo_contas :: "mundo \<Rightarrow> mundo \<Rightarrow> bool" where
  "passo_contas w w' \<longleftrightarrow>
     (lista_contas w' = lista_contas w \<and> numeros_atribuidos w' = numeros_atribuidos w)
     \<or> (lista_contas w' = lista_contas w @ [length (objetos w)]
        \<and> numeros_atribuidos w' = numeros_atribuidos w @ [int (length (lista_contas w)) + 1])"

section \<open>Example states\<close>

text \<open>Concrete accounts, a world and an environment on which the properties below are evaluated.\<close>

definition conta_exemplo :: conta_corrente where
  "conta_exemplo =
     \<lparr>saldo = 1000, numero = 1, agencia = ''0001'', cliente = 0,
      historico = [\<lparr>tipo = ''Saque'', valor = 10, data = ''01-01-2025 10:00:00''\<rparr>,
                   \<lparr>tipo = ''Deposito'', valor = 1030, data = ''01-01-2025 10:01:00''\<rparr>,
                   \<lparr>tipo = ''Saque'', valor = 10, data = ''01-01-2025 10:02:00''\<rparr>,
                   \<lparr>tipo = ''Saque'', valor = 10, data = ''01-01-2025 10:03:00''\<rparr>],
      limite = 500, limite_saques = 3\<rparr>"

definition conta_tres_saques :: conta_corrente where
  "conta_tres_saques =
     \<lparr>saldo = 970, numero = 1, agencia = ''0001'', cliente = 0,
      historico = [\<lparr>tipo = ''Deposito'', valor = 1000, data = ''t0''\<rparr>,
                   \<lparr>tipo = ''Saque'', valor = 10, data = ''t1''\<rparr>,
                   \<lparr>tipo = ''Saque'', valor = 10, data = ''t2''\<rparr>,
                   \<lparr>tipo = ''Saque'', valor = 10, data = ''t3''\<rparr>],
      limite = 500, limite_saques = 3\<rparr>"

definition mundo_exemplo :: mundo where
  "mundo_exemplo =
     \<lparr>stdin = [], stdout = [], instante = 0,
      pessoas = [PessoaFisica_init ''Ana'' ''01-01-1990'' ''123'' ''Rua A''\<lparr>contas := [0]\<rparr>],
      objetos = [ContaCorrente (ContaCorrente_nova_conta 0 1)],
      lista_clientes = [0], lista_contas = [0]\<rparr>"

definition ambiente_exemplo :: ambiente where
  "ambiente_exemplo =
     \<lparr>py_float = (\<lambda>s. if s = ''100'' then Some 100 else if s = ''50'' then Some 50 else None),
      py_int = (\<lambda>s. if s = ''1'' then Some 1 else if s = ''2'' then Some 2 else None),
      relogio = (\<lambda>n. ''01-01-2025 10:00:00'')\<rparr>"

definition mundo_dois_clientes :: mundo where
  "mundo_dois_clientes = mundo_exemplo\<lparr>stdin := [''123'', ''Bia'']\<rparr>"

definition mundo_cliente_novo :: mundo where
  "mundo_cliente_novo = mundo_exemplo\<lparr>stdin := [''456'', ''Bia'', ''02-02-1992'', ''Rua B'']\<rparr>"

definition mundo_nc_desconhecido :: mundo where
  "mundo_nc_desconhecido = mundo_exemplo\<lparr>stdin := [''nc'', ''999'', ''nc'', ''123'']\<rparr>"

definition mundo_nc_conhecido :: mundo where
  "mundo_nc_conhecido = mundo_exemplo\<lparr>stdin := [''nc'', ''123'']\<rparr>"


section \<open>Properties of the account operations\<close>



lemma falha_preserva: "\<not> sucesso op c \<Longrightarrow> executar op c = c"
proof (cases op)
  case (OpSacar v)
  assume "\<not> sucesso op c"
  with OpSacar show ?thesis
    by (cases c) (simp_all add: Conta_sacar_def ContaCorrente_sacar_def Let_def split: if_splits)
next
  case (OpDepositar v)
  assume "\<not> sucesso op c"
  with OpDepositar show ?thesis
    by (cases c) (simp_all add: Conta_depositar_def split: if_splits)
next
  case (OpTransacao t agora)
  assume "\<not> sucesso op c"
  with OpTransacao show ?thesis
    by (cases t; cases c)
       (simp_all add: Cliente_realizar_transacao_def Conta_sacar_def ContaCorrente_sacar_def
          Conta_depositar_def Let_def split: if_splits)
qed






text \<open>
  Claim C3. \<open>ContaCorrente.sacar\<close> tests the limit per withdrawal before the number of
  withdrawals: an amount above the limit is reported as limit exceeded, also when the
  number of withdrawals is already at its maximum; the count is reported only when the
  amount is within the limit. Neither failure changes the account.
\<close>

theorem limite_antes_de_saques:
  "(v > limite c \<longrightarrow> ContaCorrente_sacar c v = (False, [ExcedeLimite], c))
   \<and> (v > limite c \<and> int (numero_saques (historico c)) \<ge> limite_saques c \<longrightarrow>
        conta_sacar (ContaCorrente c) v = (False, [ExcedeLimite], ContaCorrente c))
   \<and> (\<not> v > limite c \<and> int (numero_saques (historico c)) \<ge> limite_saques c \<longrightarrow>
        ContaCorrente_sacar c v = (False, [ExcedeSaques], c))"
  by (simp add: ContaCorrente_sacar_def)

theorem limite_antes_de_saques_witness:
  "600 > limite conta_exemplo
   \<and> int (numero_saques (historico conta_exemplo)) \<ge> limite_saques conta_exemplo
   \<and> ContaCorrente_sacar conta_exemplo 600 = (False, [ExcedeLimite], conta_exemplo)
   \<and> conta_sacar (ContaCorrente conta_exemplo) 600 =
       (False, [ExcedeLimite], ContaCorrente conta_exemplo)
   \<and> \<not> 10 > limite conta_exemplo
   \<and> ContaCorrente_sacar conta_exemplo 10 = (False, [ExcedeSaques], conta_exemplo)"
proof -
  have h1: "600 > limite conta_exemplo" by (simp add: conta_exemplo_def)
  have h2: "int (numero_saques (historico conta_exemplo)) \<ge> limite_saques conta_exemplo"
    by (simp add: conta_exemplo_def numero_saques_def Saque_nome_def)
  have h3: "\<not> 10 > limite conta_exemplo" by (simp add: conta_exemplo_def)
  note t1 = limite_antes_de_saques [where v = 600 and c = conta_exemplo]
  note t2 = limite_antes_de_saques [where v = 10 and c = conta_exemplo]
  from t1 h1 h2 have a: "ContaCorrente_sacar conta_exemplo 600 = (False, [ExcedeLimite], conta_exemplo)"
    and b: "conta_sacar (ContaCorrente conta_exemplo) 600 =
       (False, [ExcedeLimite], ContaCorrente conta_exemplo)"
    by blast+
  from t2 h2 h3 have d: "ContaCorrente_sacar conta_exemplo 10 = (False, [ExcedeSaques], conta_exemplo)"
    by blast
  show ?thesis using h1 h2 h3 a b d by blast
qed

lemma executar_corrente:
  "\<exists>c'. executar op (ContaCorrente c) = ContaCorrente c'
        \<and> limite c' = limite c \<and> limite_saques c' = limite_saques c
        \<and> numero_saques (historico c) \<le> numero_saques (historico c')"
proof (cases op)
  case (OpSacar v)
  then show ?thesis
    by (simp add: Conta_sacar_def ContaCorrente_sacar_def)
next
  case (OpDepositar v)
  then show ?thesis
    by (simp add: Conta_depositar_def)
next
  case (OpTransacao t agora)
  then show ?thesis
    by (cases t)
       (simp_all add: Cliente_realizar_transacao_def Conta_sacar_def ContaCorrente_sacar_def
          Conta_depositar_def adicionar_transacao_def numero_saques_def)
qed

lemma executar_todas_corrente:
  "\<exists>c'. executar_todas ops (ContaCorrente c) = ContaCorrente c'
        \<and> limite c' = limite c \<and> limite_saques c' = limite_saques c
        \<and> numero_saques (historico c) \<le> numero_saques (historico c')"
proof (induction ops arbitrary: c)
  case Nil
  show ?case by simp
next
  case (Cons op ops)
  obtain c1 where c1: "executar op (ContaCorrente c) = ContaCorrente c1"
    "limite c1 = limite c" "limite_saques c1 = limite_saques c"
    "numero_saques (historico c) \<le> numero_saques (historico c1)"
    using executar_corrente [of op c] by blast
  obtain c2 where c2: "executar_todas ops (ContaCorrente c1) = ContaCorrente c2"
    "limite c2 = limite c1" "limite_saques c2 = limite_saques c1"
    "numero_saques (historico c1) \<le> numero_saques (historico c2)"
    using Cons.IH [of c1] by blast
  show ?case using c1 c2 by simp
qed

text \<open>
  Claim C4. Once the history of a \<open>ContaCorrente\<close> holds as many entries of kind
  \<open>Saque\<close> as \<open>limite_saques\<close> allows (3 for an account made by \<open>nova_conta\<close>), a
  withdrawal of an amount within the limit per withdrawal fails with the report that the
  number of withdrawals is exceeded, whatever the balance; and it still does after any
  further operations on the account, since the count runs over the whole history and no
  operation resets it.
\<close>

theorem saques_esgotados:
  assumes "limite_saques c \<le> int (numero_saques (historico c))" and "v \<le> limite c"
  shows "ContaCorrente_sacar c v = (False, [ExcedeSaques], c)
         \<and> conta_sacar (executar_todas ops (ContaCorrente c)) v =
             (False, [ExcedeSaques], executar_todas ops (ContaCorrente c))
         \<and> Cliente_realizar_transacao (executar_todas ops (ContaCorrente c)) (Saque v) agora =
             ([ExcedeSaques], executar_todas ops (ContaCorrente c))"
proof -
  obtain c' where c': "executar_todas ops (ContaCorrente c) = ContaCorrente c'"
    "limite c' = limite c" "limite_saques c' = limite_saques c"
    "numero_saques (historico c) \<le> numero_saques (historico c')"
    using executar_todas_corrente [of ops c] by blast
  have 1: "ContaCorrente_sacar c v = (False, [ExcedeSaques], c)"
    using assms by (simp add: ContaCorrente_sacar_def)
  have 2: "ContaCorrente_sacar c' v = (False, [ExcedeSaques], c')"
    using assms c' by (simp add: ContaCorrente_sacar_def)
  show ?thesis using 1 2 c'(1) by (simp add: Cliente_realizar_transacao_def)
qed

theorem saques_esgotados_witness:
  "executar_todas [OpTransacao (Deposito 1000) ''t0'', OpTransacao (Saque 10) ''t1'',
       OpTransacao (Saque 10) ''t2'', OpTransacao (Saque 10) ''t3'']
     (ContaCorrente (ContaCorrente_nova_conta 0 1)) = ContaCorrente conta_tres_saques
   \<and> limite_saques conta_tres_saques \<le> int (numero_saques (historico conta_tres_saques))
   \<and> 10 \<le> limite conta_tres_saques
   \<and> ContaCorrente_sacar conta_tres_saques 10 = (False, [ExcedeSaques], conta_tres_saques)
   \<and> conta_sacar (executar_todas [OpDepositar 5000] (ContaCorrente conta_tres_saques)) 10 =
       (False, [ExcedeSaques], executar_todas [OpDepositar 5000] (ContaCorrente conta_tres_saques))"
proof -
  have r: "executar_todas [OpTransacao (Deposito 1000) ''t0'', OpTransacao (Saque 10) ''t1'',
       OpTransacao (Saque 10) ''t2'', OpTransacao (Saque 10) ''t3'']
     (ContaCorrente (ContaCorrente_nova_conta 0 1)) = ContaCorrente conta_tres_saques"
    by (simp add: ContaCorrente_nova_conta_def ContaCorrente_init_def conta_tres_saques_def
          Cliente_realizar_transacao_def Conta_depositar_def Conta_sacar_def
          ContaCorrente_sacar_def adicionar_transacao_def numero_saques_def Saque_nome_def)
  have h1: "limite_saques conta_tres_saques \<le> int (numero_saques (historico conta_tres_saques))"
    by (simp add: conta_tres_saques_def numero_saques_def Saque_nome_def)
  have h2: "10 \<le> limite conta_tres_saques"
    by (simp add: conta_tres_saques_def)
  show ?thesis
    using saques_esgotados [OF h1 h2, of "[OpDepositar 5000]" "''t4''"] r h1 h2 by blast
qed

lemma historico_executar:
  "historico_de (executar op c) = historico_de c @ registro_de (op, sucesso op c)"
proof (cases op)
  case (OpSacar v)
  then show ?thesis
    by (cases c) (simp_all add: Conta_sacar_def ContaCorrente_sacar_def)
next
  case (OpDepositar v)
  then show ?thesis
    by (cases c) (simp_all add: Conta_depositar_def)
next
  case (OpTransacao t agora)
  then show ?thesis
    by (cases t; cases c)
       (simp_all add: Cliente_realizar_transacao_def Conta_sacar_def ContaCorrente_sacar_def
          Conta_depositar_def adicionar_transacao_def)
qed

lemma historico_executar_todas:
  "historico_de (executar_todas ops c) =
     historico_de c @ concat (map registro_de (resultados ops c))"
  by (induction ops arbitrary: c) (simp_all add: historico_executar)

lemma length_registros:
  "length (concat (map registro_de rs)) = length (filter transacao_aplicada rs)"
proof (induction rs)
  case Nil
  show ?case by simp
next
  case (Cons r rs)
  obtain op ok where r: "r = (op, ok)" by (cases r)
  show ?case using Cons.IH r by (cases op; cases ok) simp_all
qed

text \<open>
  Claim C5. The history after a run is the history before it followed by one entry for
  each successfully applied transaction, in the order of application; its length grows
  by the number of successful applications (and equals it for a new account). A failed
  application adds nothing, and the entries already there stay as they are, in place.
\<close>

theorem historico_so_cresce:
  "historico_de (executar_todas ops c) =
     historico_de c @ concat (map registro_de (resultados ops c))
   \<and> length (historico_de (executar_todas ops c)) =
       length (historico_de c) + length (filter transacao_aplicada (resultados ops c))
   \<and> length (historico_de (executar_todas ops (ContaCorrente (ContaCorrente_nova_conta cl n)))) =
       length (filter transacao_aplicada (resultados ops (ContaCorrente (ContaCorrente_nova_conta cl n))))
   \<and> (\<not> sucesso_transacao t c \<longrightarrow> historico_de (snd (registrar t c agora)) = historico_de c)
   \<and> (sucesso_transacao t c \<longrightarrow>
        historico_de (snd (registrar t c agora)) =
          historico_de c @ [\<lparr>tipo = nome_da_classe t, valor = valor_de t, data = agora\<rparr>])"
proof -
  have e: "historico_de (ContaCorrente (ContaCorrente_nova_conta cl n)) = []"
    by (simp add: ContaCorrente_nova_conta_def ContaCorrente_init_def)
  have s: "historico_de (snd (registrar t c agora)) =
      historico_de c @ registro_de (OpTransacao t agora, sucesso_transacao t c)"
    using historico_executar [of "OpTransacao t agora" c]
    by (simp add: Cliente_realizar_transacao_def)
  show ?thesis
    using historico_executar_todas [of ops c]
      historico_executar_todas [of ops "ContaCorrente (ContaCorrente_nova_conta cl n)"]
      length_registros e s
    by auto
qed

theorem historico_so_cresce_witness:
  "\<not> sucesso_transacao (Saque 150) (ContaCorrente (ContaCorrente_nova_conta 0 1))
   \<and> historico_de (snd (registrar (Saque 150) (ContaCorrente (ContaCorrente_nova_conta 0 1)) ''t0'')) =
       historico_de (ContaCorrente (ContaCorrente_nova_conta 0 1))
   \<and> sucesso_transacao (Deposito 150) (ContaCorrente (ContaCorrente_nova_conta 0 1))
   \<and> historico_de (snd (registrar (Deposito 150) (ContaCorrente (ContaCorrente_nova_conta 0 1)) ''t0'')) =
       [\<lparr>tipo = ''Deposito'', valor = 150, data = ''t0''\<rparr>]"
proof -
  let ?c = "ContaCorrente (ContaCorrente_nova_conta 0 1)"
  have h1: "\<not> sucesso_transacao (Saque 150) ?c"
    by (simp add: ContaCorrente_nova_conta_def ContaCorrente_init_def ContaCorrente_sacar_def
          Conta_sacar_def numero_saques_def)
  have h2: "sucesso_transacao (Deposito 150) ?c"
    by (simp add: ContaCorrente_nova_conta_def ContaCorrente_init_def Conta_depositar_def)
  have e: "historico_de ?c = []"
    by (simp add: ContaCorrente_nova_conta_def ContaCorrente_init_def)
  note t1 = historico_so_cresce [where t = "Saque 150" and c = ?c and agora = "''t0''"]
  note t2 = historico_so_cresce [where t = "Deposito 150" and c = ?c and agora = "''t0''"]
  from t1 h1 have a: "historico_de (snd (registrar (Saque 150) ?c ''t0'')) = historico_de ?c"
    by blast
  from t2 h2 have b: "historico_de (snd (registrar (Deposito 150) ?c ''t0'')) =
      historico_de ?c @ [\<lparr>tipo = nome_da_classe (Deposito 150), valor = valor_de (Deposito 150), data = ''t0''\<rparr>]"
    by blast
  have b': "historico_de (snd (registrar (Deposito 150) ?c ''t0'')) =
      [\<lparr>tipo = ''Deposito'', valor = 150, data = ''t0''\<rparr>]"
    by (simp only: b e append_Nil nome_da_classe.simps valor_de.simps)
  show ?thesis using h1 h2 a b' by blast
qed

lemma mensagem_de_falha:
  "\<not> sucesso_transacao t c \<Longrightarrow>
     fst (registrar t c agora) \<in> {[SaldoInsuficiente], [ValorInvalido], [ExcedeLimite], [ExcedeSaques]}"
  by (cases t; cases c)
     (simp_all add: Conta_sacar_def ContaCorrente_sacar_def Conta_depositar_def Let_def
        split: if_splits)

text \<open>
  Claim C6. When the account's method rejects a transaction, \<open>registrar\<close> and
  \<open>Cliente.realizar_transacao\<close> leave the account object exactly as it was (balance,
  history and every other field); what remains is the one failure message printed, and
  in the world of the program nothing but the standard output changes.
\<close>

theorem falha_sem_efeito:
  "(\<not> sucesso_transacao t c \<longrightarrow>
      snd (registrar t c agora) = c
      \<and> snd (Cliente_realizar_transacao c t agora) = c
      \<and> fst (registrar t c agora) \<in>
          {[SaldoInsuficiente], [ValorInvalido], [ExcedeLimite], [ExcedeSaques]})
   \<and> (\<not> sucesso_transacao t (objetos w ! r) \<longrightarrow>
      chamar_realizar_transacao amb r t w =
        (Inr (), w\<lparr>stdout := stdout w @
                     fst (registrar t (objetos w ! r) (relogio amb (instante w)))\<rparr>))"
proof -
  have a: "snd (registrar t c agora) = c" if "\<not> sucesso_transacao t c" for c agora
    using that falha_preserva [of "OpTransacao t agora" c]
    by (simp add: Cliente_realizar_transacao_def)
  have b: "chamar_realizar_transacao amb r t w =
        (Inr (), w\<lparr>stdout := stdout w @
                     fst (registrar t (objetos w ! r) (relogio amb (instante w)))\<rparr>)"
    if "\<not> sucesso_transacao t (objetos w ! r)"
  proof -
    obtain out c' where rg: "registrar t (objetos w ! r) (relogio amb (instante w)) = (out, c')"
      by (cases "registrar t (objetos w ! r) (relogio amb (instante w))")
    have "c' = objetos w ! r"
      using a [OF that, of "relogio amb (instante w)"] rg by simp
    then show ?thesis
      using rg by (simp add: chamar_realizar_transacao_def Cliente_realizar_transacao_def)
  qed
  show ?thesis
    using a b mensagem_de_falha by (simp add: Cliente_realizar_transacao_def)
qed

theorem falha_sem_efeito_witness:
  "\<not> sucesso_transacao (Saque 150) (ContaCorrente (ContaCorrente_nova_conta 0 1))
   \<and> registrar (Saque 150) (ContaCorrente (ContaCorrente_nova_conta 0 1)) ''t0'' =
       ([SaldoInsuficiente], ContaCorrente (ContaCorrente_nova_conta 0 1))
   \<and> \<not> sucesso_transacao (Deposito 0) (objetos mundo_exemplo ! 0)
   \<and> chamar_realizar_transacao ambiente_exemplo 0 (Deposito 0) mundo_exemplo =
       (Inr (), mundo_exemplo\<lparr>stdout := [ValorInvalido]\<rparr>)"
proof -
  let ?c = "ContaCorrente (ContaCorrente_nova_conta 0 1)"
  have h1: "\<not> sucesso_transacao (Saque 150) ?c"
    by (simp add: ContaCorrente_nova_conta_def ContaCorrente_init_def ContaCorrente_sacar_def
          Conta_sacar_def numero_saques_def)
  have m1: "fst (registrar (Saque 150) ?c ''t0'') = [SaldoInsuficiente]"
    by (simp add: ContaCorrente_nova_conta_def ContaCorrente_init_def ContaCorrente_sacar_def
          Conta_sacar_def numero_saques_def)
  have h2: "\<not> sucesso_transacao (Deposito 0) (objetos mundo_exemplo ! 0)"
    by (simp add: mundo_exemplo_def Conta_depositar_def)
  have m2: "stdout mundo_exemplo @ fst (registrar (Deposito 0) (objetos mundo_exemplo ! 0)
              (relogio ambiente_exemplo (instante mundo_exemplo))) = [ValorInvalido]"
    by (simp add: mundo_exemplo_def Conta_depositar_def)
  note t1 = falha_sem_efeito [where t = "Saque 150" and c = ?c and agora = "''t0''"]
  note t2 = falha_sem_efeito [where t = "Deposito 0" and w = mundo_exemplo and r = 0
      and amb = ambiente_exemplo]
  from t1 h1 have a: "snd (registrar (Saque 150) ?c ''t0'') = ?c" by blast
  have a': "registrar (Saque 150) ?c ''t0'' = ([SaldoInsuficiente], ?c)"
    using a m1 by (metis prod.collapse)
  from t2 h2 have b: "chamar_realizar_transacao ambiente_exemplo 0 (Deposito 0) mundo_exemplo =
        (Inr (), mundo_exemplo\<lparr>stdout := stdout mundo_exemplo @
           fst (registrar (Deposito 0) (objetos mundo_exemplo ! 0)
              (relogio ambiente_exemplo (instante mundo_exemplo)))\<rparr>)"
    by blast
  show ?thesis using h1 h2 a' b unfolding m2 by blast
qed







section \<open>Properties of the customer registry and of the account numbers\<close>

lemma estavel_refl: "estavel w w"
  by (simp add: estavel_def)

lemma estavel_trans: "estavel w w1 \<Longrightarrow> estavel w1 w2 \<Longrightarrow> estavel w w2"
  by (simp add: estavel_def)

lemma estavel_retorna: "estavel w (snd (retorna x w))"
  by (simp add: estavel_def retorna_def)

lemma estavel_print: "estavel w (snd (print s w))"
  by (simp add: estavel_def print_def)

lemma estavel_input: "estavel w (snd (input p w))"
  by (simp add: estavel_def input_def split: list.split)

lemma estavel_seq:
  assumes "estavel w (snd (m w))" and "\<And>x w1. estavel w1 (snd (f x w1))"
  shows "estavel w (snd (seq m f w))"
proof (cases "m w")
  case (Pair r w1)
  show ?thesis
  proof (cases r)
    case (Inl e)
    then show ?thesis using Pair assms(1) by (simp add: seq_def)
  next
    case (Inr x)
    have a: "estavel w w1" using Pair assms(1) by simp
    have b: "estavel w1 (snd (f x w1))" by (rule assms(2))
    show ?thesis
      using Pair Inr estavel_trans [OF a b] by (simp add: seq_def)
  qed
qed

lemma estavel_listar_opcoes: "estavel w (snd (listar_opcoes i cs w))"
proof (induction cs arbitrary: i w)
  case Nil
  show ?case by (simp add: estavel_refl)
next
  case (Cons c cs)
  show ?case
    by (simp, rule estavel_seq) (simp_all add: estavel_print Cons.IH)
qed

lemma estavel_listar_cada: "estavel w (snd (listar_cada rs w))"
proof (induction rs arbitrary: w)
  case Nil
  show ?case by (simp add: estavel_refl)
next
  case (Cons r rs)
  show ?case
    by (simp, rule estavel_seq, simp add: estavel_print, rule estavel_seq)
       (simp_all add: estavel_print Cons.IH)
qed

lemma estavel_escolher_conta: "estavel w (snd (escolher_conta amb cs w))"
proof (induction amb cs w rule: escolher_conta.induct)
  case (1 amb cs w)
  show ?case
  proof (cases "stdin w")
    case Nil
    then show ?thesis
      by (subst escolher_conta.simps) (simp add: input_def estavel_def)
  next
    case (Cons l ls)
    let ?w' = "w\<lparr>stdin := ls, stdout := stdout w @ [Pergunta PEscolhaConta]\<rparr>"
    have inp: "input PEscolhaConta w = (Inr l, ?w')" using Cons by (simp add: input_def)
    have e1: "estavel w ?w'" by (simp add: estavel_def)
    show ?thesis
    proof (cases "py_int amb l")
      case None
      have "estavel ?w' (snd (print EntradaInvalida ?w'))" by (rule estavel_print)
      with e1 "1.IH"(1) [OF inp [symmetric] refl None]
      have "estavel w (snd (escolher_conta amb cs (snd (print EntradaInvalida ?w'))))"
        by (blast intro: estavel_trans)
      then show ?thesis using inp None
        by (subst escolher_conta.simps) simp
    next
      case (Some escolha)
      show ?thesis
      proof (cases "1 \<le> escolha \<and> escolha \<le> int (length cs)")
        case True
        then show ?thesis using inp Some
          by (subst escolher_conta.simps) (simp add: estavel_def)
      next
        case False
        have "estavel ?w' (snd (print OpcaoInvalida ?w'))" by (rule estavel_print)
        with e1 "1.IH"(2) [OF inp [symmetric] refl Some False]
        have "estavel w (snd (escolher_conta amb cs (snd (print OpcaoInvalida ?w'))))"
          by (blast intro: estavel_trans)
        then show ?thesis using inp Some False
          by (subst escolher_conta.simps) (simp add: estavel_def)
      qed
    qed
  qed
qed

lemma estavel_recuperar: "estavel w (snd (recuperar_conta_cliente amb c w))"
  unfolding recuperar_conta_cliente_def Let_def
  by (auto intro!: estavel_seq estavel_retorna estavel_print estavel_listar_opcoes
        estavel_escolher_conta)

lemma numero_executar: "numero_de (executar op c) = numero_de c"
proof (cases op)
  case (OpSacar v)
  then show ?thesis
    by (cases c) (simp_all add: Conta_sacar_def ContaCorrente_sacar_def)
next
  case (OpDepositar v)
  then show ?thesis
    by (cases c) (simp_all add: Conta_depositar_def)
next
  case (OpTransacao t agora)
  then show ?thesis
    by (cases t; cases c)
       (simp_all add: Cliente_realizar_transacao_def Conta_sacar_def ContaCorrente_sacar_def
          Conta_depositar_def)
qed

lemma map_numero_update:
  assumes "numero_de c' = numero_de (xs ! r)"
  shows "map numero_de (xs[r := c']) = map numero_de xs"
proof (cases "r < length xs")
  case True
  then show ?thesis using assms by (simp add: map_update list_update_same_conv)
next
  case False
  then show ?thesis by (simp add: list_update_beyond)
qed

lemma estavel_chamar: "estavel w (snd (chamar_realizar_transacao amb r t w))"
proof -
  obtain out c' where rg:
    "Cliente_realizar_transacao (objetos w ! r) t (relogio amb (instante w)) = (out, c')"
    by (cases "Cliente_realizar_transacao (objetos w ! r) t (relogio amb (instante w))")
  have "numero_de c' = numero_de (objetos w ! r)"
    using numero_executar [of "OpTransacao t (relogio amb (instante w))" "objetos w ! r"] rg
    by simp
  then show ?thesis
    using rg by (simp add: chamar_realizar_transacao_def estavel_def map_numero_update)
qed

lemma estavel_depositar: "estavel w (snd (depositar amb w))"
  unfolding depositar_def
  by (auto intro!: estavel_seq estavel_input estavel_recuperar estavel_retorna estavel_print
        estavel_chamar split: option.split)

lemma estavel_sacar: "estavel w (snd (sacar amb w))"
  unfolding sacar_def
  by (auto intro!: estavel_seq estavel_input estavel_recuperar estavel_retorna estavel_print
        estavel_chamar split: option.split)

lemma estavel_exibir_extrato: "estavel w (snd (exibir_extrato amb w))"
  unfolding exibir_extrato_def
  by (auto intro!: estavel_seq estavel_input estavel_recuperar estavel_retorna estavel_print
        split: option.split)

lemma estavel_listar_contas: "estavel w (snd (listar_contas w))"
  by (simp add: listar_contas_def estavel_print estavel_listar_cada)

lemma estavel_seq_retorna:
  assumes "\<And>w. estavel w (snd (m w))"
  shows "estavel w (snd (seq m (\<lambda>_. retorna x) w))"
  by (rule estavel_seq) (simp_all add: assms estavel_retorna)

lemma numeros_atribuidos_cong:
  assumes "list_all (\<lambda>r. r < length (objetos w)) (lista_contas w)"
    and "lista_contas w' = lista_contas w"
    and "map numero_de (objetos w') = map numero_de (objetos w)"
  shows "numeros_atribuidos w' = numeros_atribuidos w"
proof -
  have len: "length (objetos w') = length (objetos w)"
    using assms(3) by (metis length_map)
  have "numero_de (objetos w' ! r) = numero_de (objetos w ! r)" if "r < length (objetos w)" for r
  proof -
    have "map numero_de (objetos w') ! r = map numero_de (objetos w) ! r"
      using assms(3) by simp
    then show ?thesis using that len by simp
  qed
  then show ?thesis
    using assms(1,2) by (simp add: numeros_atribuidos_def list_all_iff)
qed

lemma estavel_validas: "estavel w w' \<Longrightarrow> referencias_validas w \<Longrightarrow> referencias_validas w'"
proof -
  assume e: "estavel w w'" and v: "referencias_validas w"
  have "length (objetos w') = length (objetos w)"
    using e unfolding estavel_def by (metis length_map)
  then show ?thesis using e v by (simp add: estavel_def referencias_validas_def)
qed

lemma estavel_numeros:
  "estavel w w' \<Longrightarrow> referencias_validas w \<Longrightarrow> numeros_atribuidos w' = numeros_atribuidos w"
  by (rule numeros_atribuidos_cong) (simp_all add: estavel_def referencias_validas_def)

lemma estavel_cpfs: "estavel w w' \<Longrightarrow> cpfs w' = cpfs w"
  by (simp add: estavel_def cpfs_def)

lemma estavel_invariante: "estavel w w' \<Longrightarrow> invariante w \<Longrightarrow> invariante w'"
  using estavel_validas [of w w'] estavel_numeros [of w w'] estavel_cpfs [of w w']
  by (simp add: invariante_def estavel_def)

lemma filtrar_cliente_None:
  "filtrar_cliente c cs ps = None \<longleftrightarrow> c \<notin> set (map (\<lambda>r. cpf (ps ! r)) cs)"
proof -
  have "filter (\<lambda>r. cpf (ps ! r) = c) cs = [] \<longleftrightarrow> c \<notin> set (map (\<lambda>r. cpf (ps ! r)) cs)"
    by (auto simp: filter_empty_conv)
  then show ?thesis
    by (cases "filter (\<lambda>r. cpf (ps ! r) = c) cs") (simp_all add: filtrar_cliente_def)
qed

lemma filtrar_cliente_Some:
  "filtrar_cliente c cs ps = Some r \<Longrightarrow> r \<in> set cs \<and> cpf (ps ! r) = c"
proof -
  assume a: "filtrar_cliente c cs ps = Some r"
  then obtain rs where "filter (\<lambda>r. cpf (ps ! r) = c) cs = r # rs"
    by (auto simp: filtrar_cliente_def Let_def split: list.splits)
  then have "r \<in> set (filter (\<lambda>r. cpf (ps ! r) = c) cs)" by simp
  then show ?thesis by simp
qed

lemma criar_cliente_efeito:
  "objetos (snd (criar_cliente w)) = objetos w
   \<and> lista_contas (snd (criar_cliente w)) = lista_contas w
   \<and> ((pessoas (snd (criar_cliente w)) = pessoas w
        \<and> lista_clientes (snd (criar_cliente w)) = lista_clientes w)
      \<or> (\<exists>p. cpf p \<notin> set (cpfs w)
            \<and> pessoas (snd (criar_cliente w)) = pessoas w @ [p]
            \<and> lista_clientes (snd (criar_cliente w)) = lista_clientes w @ [length (pessoas w)]))"
  by (auto simp: criar_cliente_def seq_def input_def print_def PessoaFisica_init_def cpfs_def
        filtrar_cliente_None [unfolded set_map]
        split: list.split option.split)

lemma cpfs_append:
  assumes "list_all (\<lambda>c. c < length (pessoas w)) (lista_clientes w)"
    and "pessoas w' = pessoas w @ [p]"
    and "lista_clientes w' = lista_clientes w @ [length (pessoas w)]"
  shows "cpfs w' = cpfs w @ [cpf p]"
proof -
  have "map (\<lambda>c. cpf ((pessoas w @ [p]) ! c)) (lista_clientes w) =
        map (\<lambda>c. cpf (pessoas w ! c)) (lista_clientes w)"
    using assms(1) by (simp add: list_all_iff nth_append)
  then show ?thesis using assms(2,3) by (simp add: cpfs_def)
qed

lemma invariante_criar_cliente:
  assumes "invariante w"
  shows "invariante (snd (criar_cliente w))"
proof -
  let ?w' = "snd (criar_cliente w)"
  note ef = criar_cliente_efeito [of w]
  have v: "list_all (\<lambda>c. c < length (pessoas w)) (lista_clientes w)"
    "list_all (\<lambda>r. r < length (objetos w)) (lista_contas w)"
    using assms by (simp_all add: invariante_def referencias_validas_def)
  have n: "numeros_atribuidos ?w' = numeros_atribuidos w"
    using ef by (simp add: numeros_atribuidos_def)
  from ef consider
      (igual) "pessoas ?w' = pessoas w" "lista_clientes ?w' = lista_clientes w"
    | (novo) p where "cpf p \<notin> set (cpfs w)" "pessoas ?w' = pessoas w @ [p]"
        "lista_clientes ?w' = lista_clientes w @ [length (pessoas w)]"
    by blast
  then show ?thesis
  proof cases
    case igual
    then have "cpfs ?w' = cpfs w" by (simp add: cpfs_def)
    then show ?thesis
      using assms igual ef n by (simp add: invariante_def referencias_validas_def)
  next
    case novo
    have c: "cpfs ?w' = cpfs w @ [cpf p]"
      using cpfs_append [OF v(1) novo(2,3)] .
    have "list_all (\<lambda>c. c < length (pessoas ?w')) (lista_clientes ?w')"
      using v(1) novo(2,3) by (auto simp: list_all_iff)
    then show ?thesis
      using assms novo ef n c by (simp add: invariante_def referencias_validas_def)
  qed
qed

lemma map_cpf_update:
  assumes "cpf p = cpf (ps ! c)"
  shows "map cpf (ps[c := p]) = map cpf ps"
proof (cases "c < length ps")
  case True
  then show ?thesis using assms by (simp add: map_update list_update_same_conv)
next
  case False
  then show ?thesis by (simp add: list_update_beyond)
qed

lemma criar_conta_efeito:
  "(\<exists>r w'. criar_conta n w = (Inr (Some r), w') \<and> conta_criada n w r w')
   \<or> (\<exists>e w'. criar_conta n w = (e, w') \<and> (\<forall>r. e \<noteq> Inr (Some r)) \<and> estavel w w')"
proof (cases "stdin w")
  case Nil
  then show ?thesis
    by (simp add: criar_conta_def seq_def input_def estavel_def)
next
  case (Cons l ls)
  let ?w1 = "w\<lparr>stdin := ls, stdout := stdout w @ [Pergunta PCpfCliente]\<rparr>"
  show ?thesis
  proof (cases "filtrar_cliente l (lista_clientes w) (pessoas w)")
    case None
    then show ?thesis using Cons
      by (simp add: criar_conta_def seq_def input_def print_def retorna_def estavel_def)
  next
    case (Some c)
    have "map cpf ((pessoas w)[c := adicionar_conta (pessoas w ! c) (length (objetos w))]) =
          map cpf (pessoas w)"
      by (rule map_cpf_update) (simp add: adicionar_conta_def)
    then show ?thesis using Cons Some
      by (simp add: criar_conta_def seq_def input_def print_def retorna_def conta_criada_def
            ContaCorrente_nova_conta_def ContaCorrente_init_def Let_def)
  qed
qed

lemma cpfs_map_cpf:
  assumes "list_all (\<lambda>c. c < length (pessoas w)) (lista_clientes w)"
    and "lista_clientes w' = lista_clientes w"
    and "map cpf (pessoas w') = map cpf (pessoas w)"
  shows "cpfs w' = cpfs w"
proof -
  have len: "length (pessoas w') = length (pessoas w)"
    using assms(3) by (metis length_map)
  have "cpf (pessoas w' ! c) = cpf (pessoas w ! c)" if "c < length (pessoas w)" for c
  proof -
    have "map cpf (pessoas w') ! c = map cpf (pessoas w) ! c"
      using assms(3) by simp
    then show ?thesis using that len by simp
  qed
  then show ?thesis
    using assms(1,2) by (simp add: cpfs_def list_all_iff)
qed

text \<open>The world after the branch \<open>nc\<close> has appended the new account to \<open>contas\<close>.\<close>

lemma invariante_nova_conta:
  assumes inv: "invariante w"
    and cc: "conta_criada (int (length (lista_contas w)) + 1) w r w'"
  shows "invariante (w'\<lparr>lista_contas := lista_contas w' @ [r]\<rparr>)"
    and "numeros_atribuidos (w'\<lparr>lista_contas := lista_contas w' @ [r]\<rparr>) =
           numeros_atribuidos w @ [int (length (lista_contas w)) + 1]"
proof -
  let ?n = "int (length (lista_contas w)) + 1"
  let ?w2 = "w'\<lparr>lista_contas := lista_contas w' @ [r]\<rparr>"
  obtain obj where obj: "numero_de obj = ?n" "objetos w' = objetos w @ [obj]"
    using cc unfolding conta_criada_def by blast
  have r: "r = length (objetos w)" and lc: "lista_clientes w' = lista_clientes w"
    and lk: "lista_contas w' = lista_contas w"
    and mp: "map cpf (pessoas w') = map cpf (pessoas w)"
    using cc unfolding conta_criada_def by simp_all
  have v: "list_all (\<lambda>c. c < length (pessoas w)) (lista_clientes w)"
    "list_all (\<lambda>r. r < length (objetos w)) (lista_contas w)"
    using inv by (simp_all add: invariante_def referencias_validas_def)
  have len: "length (pessoas w') = length (pessoas w)"
    using mp by (metis length_map)
  have c: "cpfs ?w2 = cpfs w"
    using cpfs_map_cpf [OF v(1), of ?w2] lc mp by simp
  have "map (\<lambda>r. numero_de ((objetos w @ [obj]) ! r)) (lista_contas w) =
        map (\<lambda>r. numero_de (objetos w ! r)) (lista_contas w)"
    using v(2) by (simp add: list_all_iff nth_append)
  then have n: "numeros_atribuidos ?w2 = numeros_atribuidos w @ [?n]"
    using obj r lk by (simp add: numeros_atribuidos_def)
  have v2: "referencias_validas ?w2"
    using v lc lk len obj r by (auto simp: referencias_validas_def list_all_iff)
  have "numeros_atribuidos w = map int [1..<Suc (length (lista_contas w))]"
    using inv by (simp add: invariante_def)
  then have "numeros_atribuidos ?w2 = map int [1..<Suc (length (lista_contas ?w2))]"
    using n lk by simp
  then show "invariante ?w2"
    using v2 c inv by (simp add: invariante_def)
  show "numeros_atribuidos ?w2 = numeros_atribuidos w @ [?n]" by (rule n)
qed

lemma estavel_passo:
  assumes "estavel w w'" and "referencias_validas w"
  shows "passo_contas w w'"
  using assms estavel_numeros [OF assms] by (simp add: passo_contas_def estavel_def)

lemma passo_apos_estavel:
  assumes e: "estavel w w1" and v: "referencias_validas w" and p: "passo_contas w1 w2"
  shows "passo_contas w w2"
proof -
  have "length (objetos w1) = length (objetos w)"
    using e unfolding estavel_def by (metis length_map)
  moreover have "lista_contas w1 = lista_contas w"
    using e by (simp add: estavel_def)
  moreover have "numeros_atribuidos w1 = numeros_atribuidos w"
    using estavel_numeros [OF e v] .
  ultimately show ?thesis using p by (simp add: passo_contas_def)
qed

lemma ramo_nova_conta:
  assumes inv: "invariante w"
  shows "invariante (snd (seq (criar_conta (int (length (lista_contas w)) + 1)) (\<lambda>nova_conta.
            case nova_conta of
              None \<Rightarrow> retorna True
            | Some r \<Rightarrow> (\<lambda>w1. (Inr True, w1\<lparr>lista_contas := lista_contas w1 @ [r]\<rparr>))) w))
         \<and> passo_contas w (snd (seq (criar_conta (int (length (lista_contas w)) + 1)) (\<lambda>nova_conta.
            case nova_conta of
              None \<Rightarrow> retorna True
            | Some r \<Rightarrow> (\<lambda>w1. (Inr True, w1\<lparr>lista_contas := lista_contas w1 @ [r]\<rparr>))) w))"
proof -
  let ?n = "int (length (lista_contas w)) + 1"
  have v: "referencias_validas w" using inv by (simp add: invariante_def)
  from criar_conta_efeito [of ?n w] consider
      (criada) r w' where "criar_conta ?n w = (Inr (Some r), w')" "conta_criada ?n w r w'"
    | (nao) e w' where "criar_conta ?n w = (e, w')" "\<forall>r. e \<noteq> Inr (Some r)" "estavel w w'"
    by blast
  then show ?thesis
  proof cases
    case criada
    have lk: "lista_contas w' = lista_contas w" and r: "r = length (objetos w)"
      using criada(2) by (simp_all add: conta_criada_def)
    show ?thesis
      using criada(1) invariante_nova_conta [OF inv criada(2)] lk r
      by (simp add: seq_def passo_contas_def)
  next
    case nao
    have "snd (seq (criar_conta ?n) (\<lambda>nova_conta.
            case nova_conta of
              None \<Rightarrow> retorna True
            | Some r \<Rightarrow> (\<lambda>w1. (Inr True, w1\<lparr>lista_contas := lista_contas w1 @ [r]\<rparr>))) w) = w'"
    proof (cases e)
      case (Inl x)
      then show ?thesis using nao(1) by (simp add: seq_def)
    next
      case (Inr x)
      then have "x = None" using nao(2) by (cases x) simp_all
      then show ?thesis using nao(1) Inr by (simp add: seq_def retorna_def)
    qed
    then show ?thesis
      using estavel_invariante [OF nao(3) inv] estavel_passo [OF nao(3) v] by simp
  qed
qed

lemma snd_seq_retorna: "snd (seq m (\<lambda>_. retorna x) w) = snd (m w)"
proof (cases "m w")
  case (Pair r w1)
  then show ?thesis by (cases r) (simp_all add: seq_def retorna_def)
qed

lemma iteracao_efeito:
  assumes inv: "invariante w"
  shows "invariante (snd (iteracao amb w)) \<and> passo_contas w (snd (iteracao amb w))"
proof -
  have v: "referencias_validas w" using inv by (simp add: invariante_def)
  obtain r w1 where m: "menu w = (r, w1)" by (cases "menu w")
  have e1: "estavel w w1"
    using estavel_input [of w PMenu] m by (simp add: menu_def)
  have inv1: "invariante w1" using estavel_invariante [OF e1 inv] .
  have v1: "referencias_validas w1" using inv1 by (simp add: invariante_def)
  show ?thesis
  proof (cases r)
    case (Inl e)
    then have "snd (iteracao amb w) = w1" using m by (simp add: iteracao_def seq_def)
    then show ?thesis using inv1 estavel_passo [OF e1 v] by simp
  next
    case (Inr opcao)
    consider (nc) "opcao = ''nc''" | (nu) "opcao = ''nu''"
      | (outra) "opcao \<noteq> ''nc''" "opcao \<noteq> ''nu''"
      by blast
    then show ?thesis
    proof cases
      case nc
      have "snd (iteracao amb w) =
          snd (seq (criar_conta (int (length (lista_contas w1)) + 1)) (\<lambda>nova_conta.
            case nova_conta of
              None \<Rightarrow> retorna True
            | Some r \<Rightarrow> (\<lambda>w1. (Inr True, w1\<lparr>lista_contas := lista_contas w1 @ [r]\<rparr>))) w1)"
        using m Inr nc by (simp add: iteracao_def seq_def [of menu] Let_def)
      then show ?thesis
        using ramo_nova_conta [OF inv1] passo_apos_estavel [OF e1 v] by simp
    next
      case nu
      have eq: "snd (iteracao amb w) = snd (criar_cliente w1)"
        using m Inr nu by (simp add: iteracao_def seq_def [of menu] snd_seq_retorna)
      have "passo_contas w1 (snd (criar_cliente w1))"
        using criar_cliente_efeito [of w1] by (simp add: passo_contas_def numeros_atribuidos_def)
      then show ?thesis
        using eq invariante_criar_cliente [OF inv1] passo_apos_estavel [OF e1 v] by simp
    next
      case outra
      have e2: "estavel w1 (snd (iteracao amb w))"
        using m Inr outra unfolding iteracao_def seq_def [of menu]
        by (simp add: estavel_seq_retorna estavel_depositar estavel_sacar
              estavel_exibir_extrato estavel_listar_contas estavel_print)
      show ?thesis
        using estavel_invariante [OF e2 inv1] estavel_passo [OF e2 v1]
          passo_apos_estavel [OF e1 v] by simp
    qed
  qed
qed

lemma invariante_instante: "invariante (w\<lparr>instante := n\<rparr>) = invariante w"
  by (simp add: invariante_def referencias_validas_def cpfs_def numeros_atribuidos_def)

lemma invariante_main_loop: "invariante w \<Longrightarrow> invariante (snd (main_loop amb w))"
proof (induction amb w rule: main_loop.induct)
  case (1 amb w)
  obtain r w' where it: "iteracao amb w = (r, w')" by (cases "iteracao amb w")
  have inv': "invariante w'" using iteracao_efeito [OF "1.prems", of amb] it by simp
  show ?case
  proof (cases r)
    case (Inl e)
    then show ?thesis using it inv' by (subst main_loop.simps) simp
  next
    case (Inr continua)
    show ?thesis
    proof (cases continua)
      case True
      have "invariante (snd (main_loop amb (w'\<lparr>instante := Suc (instante w')\<rparr>)))"
        using "1.IH" [OF it [symmetric] Inr True] inv'
        by (simp add: invariante_instante)
      then show ?thesis using it Inr True by (subst main_loop.simps) simp
    next
      case False
      then show ?thesis using it Inr inv' by (subst main_loop.simps) simp
    qed
  qed
qed

lemma invariante_inicial: "invariante (mundo_inicial entrada)"
  by (simp add: invariante_def referencias_validas_def cpfs_def numeros_atribuidos_def
        mundo_inicial_def)

lemma invariante_main: "invariante (snd (main amb entrada))"
  unfolding main_def by (rule invariante_main_loop) (rule invariante_inicial)

lemma unicidade_criar_cliente:
  assumes v: "list_all (\<lambda>c. c < length (pessoas w)) (lista_clientes w)"
    and d: "distinct (cpfs w)"
  shows "distinct (cpfs (snd (criar_cliente w)))"
proof -
  let ?w' = "snd (criar_cliente w)"
  from criar_cliente_efeito [of w] consider
      (igual) "pessoas ?w' = pessoas w" "lista_clientes ?w' = lista_clientes w"
    | (novo) p where "cpf p \<notin> set (cpfs w)" "pessoas ?w' = pessoas w @ [p]"
        "lista_clientes ?w' = lista_clientes w @ [length (pessoas w)]"
    by blast
  then show ?thesis
  proof cases
    case igual
    then have "cpfs ?w' = cpfs w" by (simp add: cpfs_def)
    then show ?thesis using d by simp
  next
    case novo
    have "cpfs ?w' = cpfs w @ [cpf p]"
      using cpfs_append [OF v novo(2,3)] .
    then show ?thesis using d novo(1) by simp
  qed
qed

lemma criar_cliente_duplicado:
  assumes "stdin w = c # resto" and "c \<in> set (cpfs w)"
  shows "criar_cliente w =
           (Inr (), w\<lparr>stdin := resto, stdout := stdout w @ [Pergunta PCpfNovo, ClienteJaExiste]\<rparr>)"
proof -
  have "filtrar_cliente c (lista_clientes w) (pessoas w) \<noteq> None"
    using assms(2) by (simp add: filtrar_cliente_None cpfs_def)
  then obtain r where "filtrar_cliente c (lista_clientes w) (pessoas w) = Some r"
    by blast
  then show ?thesis
    using assms(1) by (simp add: criar_cliente_def seq_def input_def print_def)
qed

text \<open>
  Claim C8. \<open>criar_cliente\<close>, given an identifier that a registered customer already
  has, prints that the customer exists and changes nothing else: the list of customers
  and the customer objects are as before. Whatever it reads, \<open>criar_cliente\<close> keeps the
  identifiers of the registered customers distinct, and they are distinct in every world
  that \<open>main\<close> ends in.
\<close>

theorem cpf_duplicado_rejeitado:
  "(stdin w = c # resto \<and> c \<in> set (cpfs w) \<longrightarrow>
      criar_cliente w =
        (Inr (), w\<lparr>stdin := resto, stdout := stdout w @ [Pergunta PCpfNovo, ClienteJaExiste]\<rparr>))
   \<and> (list_all (\<lambda>c. c < length (pessoas w)) (lista_clientes w) \<and> distinct (cpfs w) \<longrightarrow>
        distinct (cpfs (snd (criar_cliente w))))
   \<and> distinct (cpfs (snd (main amb entrada)))"
  using criar_cliente_duplicado [of w c resto] unicidade_criar_cliente [of w]
    invariante_main [of amb entrada]
  by (simp add: invariante_def)

theorem cpf_duplicado_rejeitado_witness:
  "stdin mundo_dois_clientes = ''123'' # [''Bia''] \<and> ''123'' \<in> set (cpfs mundo_dois_clientes)
   \<and> criar_cliente mundo_dois_clientes =
       (Inr (), mundo_dois_clientes\<lparr>stdin := [''Bia''],
                  stdout := stdout mundo_dois_clientes @ [Pergunta PCpfNovo, ClienteJaExiste]\<rparr>)
   \<and> list_all (\<lambda>c. c < length (pessoas mundo_cliente_novo)) (lista_clientes mundo_cliente_novo)
   \<and> distinct (cpfs mundo_cliente_novo)
   \<and> distinct (cpfs (snd (criar_cliente mundo_cliente_novo)))
   \<and> cpfs (snd (criar_cliente mundo_cliente_novo)) = [''123'', ''456'']"
proof -
  have h1: "stdin mundo_dois_clientes = ''123'' # [''Bia''] \<and> ''123'' \<in> set (cpfs mundo_dois_clientes)"
    by (simp add: mundo_dois_clientes_def mundo_exemplo_def cpfs_def PessoaFisica_init_def)
  have h2: "list_all (\<lambda>c. c < length (pessoas mundo_cliente_novo)) (lista_clientes mundo_cliente_novo)
      \<and> distinct (cpfs mundo_cliente_novo)"
    by (simp add: mundo_cliente_novo_def mundo_exemplo_def cpfs_def)
  have e: "cpfs (snd (criar_cliente mundo_cliente_novo)) = [''123'', ''456'']"
    by (simp add: mundo_cliente_novo_def mundo_exemplo_def cpfs_def PessoaFisica_init_def
          criar_cliente_def seq_def input_def print_def filtrar_cliente_def)
  note t1 = cpf_duplicado_rejeitado [where w = mundo_dois_clientes and c = "''123''"
      and resto = "[''Bia'']"]
  note t2 = cpf_duplicado_rejeitado [where w = mundo_cliente_novo]
  from t1 h1 have a: "criar_cliente mundo_dois_clientes =
       (Inr (), mundo_dois_clientes\<lparr>stdin := [''Bia''],
                  stdout := stdout mundo_dois_clientes @ [Pergunta PCpfNovo, ClienteJaExiste]\<rparr>)"
    by blast
  from t2 h2 have b: "distinct (cpfs (snd (criar_cliente mundo_cliente_novo)))"
    by blast
  show ?thesis using h1 h2 a b e by blast
qed

lemma nc_cliente_desconhecido:
  assumes "stdin w = ''nc'' # c # resto" and "c \<notin> set (cpfs w)"
  shows "iteracao amb w =
           (Inr True, w\<lparr>stdin := resto,
              stdout := stdout w @
                [Pergunta PMenu, Pergunta PCpfCliente, ClienteNaoEncontradoNovaConta]\<rparr>)"
proof -
  have "filtrar_cliente c (lista_clientes w) (pessoas w) = None"
    using assms(2) by (simp add: filtrar_cliente_None cpfs_def)
  then show ?thesis
    using assms(1)
    by (simp add: iteracao_def menu_def criar_conta_def seq_def input_def print_def retorna_def)
qed

lemma nc_cliente_conhecido:
  assumes "stdin w = ''nc'' # c # resto" and "c \<in> set (cpfs w)"
  shows "lista_contas (snd (iteracao amb w)) = lista_contas w @ [length (objetos w)]"
proof -
  have "filtrar_cliente c (lista_clientes w) (pessoas w) \<noteq> None"
    using assms(2) by (simp add: filtrar_cliente_None cpfs_def)
  then obtain r where "filtrar_cliente c (lista_clientes w) (pessoas w) = Some r"
    by blast
  then show ?thesis
    using assms(1)
    by (simp add: iteracao_def menu_def criar_conta_def seq_def input_def print_def retorna_def
          Let_def)
qed

lemma numeros_crescentes:
  "sorted_wrt (<) (map int [1..<Suc n]) \<and> distinct (map int [1..<Suc n])"
proof -
  have "sorted_wrt (<) [1..<Suc n]" by (rule sorted_wrt_upt)
  then have "sorted_wrt (<) (map int [1..<Suc n])"
    by (simp only: sorted_wrt_map of_nat_less_iff)
  moreover have "distinct (map int [1..<Suc n])"
    by (simp only: distinct_map distinct_upt) (simp add: inj_on_def)
  ultimately show ?thesis by blast
qed

text \<open>
  Claim C9. The numbers of the accounts created in a run of \<open>main\<close> are 1, 2, ..., in
  order of creation: strictly increasing and without repetition. A round of the loop
  leaves the numbers as they are or adds, for a new account, the number of existing
  accounts plus 1; an attempt for an unknown customer creates nothing and uses up no
  number, so the next account created still gets the count plus 1.
\<close>

theorem numeros_de_conta:
  "numeros_atribuidos (snd (main amb entrada)) =
     map int [1..<Suc (length (lista_contas (snd (main amb entrada))))]
   \<and> sorted_wrt (<) (numeros_atribuidos (snd (main amb entrada)))
   \<and> distinct (numeros_atribuidos (snd (main amb entrada)))
   \<and> (invariante w \<longrightarrow>
        invariante (snd (iteracao amb w)) \<and> passo_contas w (snd (iteracao amb w)))
   \<and> (invariante w \<and> stdin w = ''nc'' # c # resto \<and> c \<notin> set (cpfs w) \<longrightarrow>
        lista_contas (snd (iteracao amb w)) = lista_contas w
        \<and> numeros_atribuidos (snd (iteracao amb w)) = numeros_atribuidos w)
   \<and> (invariante w \<and> stdin w = ''nc'' # c # resto \<and> c \<in> set (cpfs w) \<longrightarrow>
        lista_contas (snd (iteracao amb w)) = lista_contas w @ [length (objetos w)]
        \<and> numeros_atribuidos (snd (iteracao amb w)) =
            numeros_atribuidos w @ [int (length (lista_contas w)) + 1])"
proof -
  have m: "numeros_atribuidos (snd (main amb entrada)) =
     map int [1..<Suc (length (lista_contas (snd (main amb entrada))))]"
    using invariante_main [of amb entrada] by (simp add: invariante_def)
  have a: "numeros_atribuidos (snd (iteracao amb w)) = numeros_atribuidos w"
    "lista_contas (snd (iteracao amb w)) = lista_contas w"
    if "stdin w = ''nc'' # c # resto" "c \<notin> set (cpfs w)"
    using nc_cliente_desconhecido [OF that, of amb]
    by (simp_all add: numeros_atribuidos_def)
  have b: "lista_contas (snd (iteracao amb w)) = lista_contas w @ [length (objetos w)]
        \<and> numeros_atribuidos (snd (iteracao amb w)) =
            numeros_atribuidos w @ [int (length (lista_contas w)) + 1]"
    if "invariante w" "stdin w = ''nc'' # c # resto" "c \<in> set (cpfs w)"
    using nc_cliente_conhecido [OF that(2,3), of amb] iteracao_efeito [OF that(1), of amb]
    by (simp add: passo_contas_def)
  show ?thesis
    using m numeros_crescentes [of "length (lista_contas (snd (main amb entrada)))"]
      iteracao_efeito [of w amb] a b
    by simp
qed

lemma invariante_mundo_exemplo: "invariante (mundo_exemplo\<lparr>stdin := xs\<rparr>)"
  by (simp add: invariante_def referencias_validas_def cpfs_def numeros_atribuidos_def
        mundo_exemplo_def ContaCorrente_nova_conta_def ContaCorrente_init_def)

theorem numeros_de_conta_witness:
  "invariante mundo_nc_desconhecido
   \<and> stdin mundo_nc_desconhecido = ''nc'' # ''999'' # [''nc'', ''123'']
   \<and> ''999'' \<notin> set (cpfs mundo_nc_desconhecido)
   \<and> numeros_atribuidos mundo_nc_desconhecido = [1]
   \<and> numeros_atribuidos (snd (iteracao ambiente_exemplo mundo_nc_desconhecido)) = [1]
   \<and> invariante mundo_nc_conhecido
   \<and> stdin mundo_nc_conhecido = ''nc'' # ''123'' # []
   \<and> ''123'' \<in> set (cpfs mundo_nc_conhecido)
   \<and> numeros_atribuidos (snd (iteracao ambiente_exemplo mundo_nc_conhecido)) = [1, 2]
   \<and> invariante (snd (iteracao ambiente_exemplo mundo_nc_conhecido))"
proof -
  have i1: "invariante mundo_nc_desconhecido"
    unfolding mundo_nc_desconhecido_def by (rule invariante_mundo_exemplo)
  have i2: "invariante mundo_nc_conhecido"
    unfolding mundo_nc_conhecido_def by (rule invariante_mundo_exemplo)
  have s1: "stdin mundo_nc_desconhecido = ''nc'' # ''999'' # [''nc'', ''123'']"
    by (simp add: mundo_nc_desconhecido_def)
  have s2: "stdin mundo_nc_conhecido = ''nc'' # ''123'' # []"
    by (simp add: mundo_nc_conhecido_def)
  have c1: "''999'' \<notin> set (cpfs mundo_nc_desconhecido)"
    by (simp add: mundo_nc_desconhecido_def mundo_exemplo_def cpfs_def PessoaFisica_init_def)
  have c2: "''123'' \<in> set (cpfs mundo_nc_conhecido)"
    by (simp add: mundo_nc_conhecido_def mundo_exemplo_def cpfs_def PessoaFisica_init_def)
  have n1: "numeros_atribuidos mundo_nc_desconhecido = [1]"
    by (simp add: mundo_nc_desconhecido_def mundo_exemplo_def numeros_atribuidos_def
          ContaCorrente_nova_conta_def ContaCorrente_init_def)
  have n2: "numeros_atribuidos mundo_nc_conhecido = [1]"
    by (simp add: mundo_nc_conhecido_def mundo_exemplo_def numeros_atribuidos_def
          ContaCorrente_nova_conta_def ContaCorrente_init_def)
  have l2: "int (length (lista_contas mundo_nc_conhecido)) + 1 = 2"
    by (simp add: mundo_nc_conhecido_def mundo_exemplo_def)
  note t1 = numeros_de_conta [where w = mundo_nc_desconhecido and c = "''999''"
      and resto = "[''nc'', ''123'']" and amb = ambiente_exemplo]
  note t2 = numeros_de_conta [where w = mundo_nc_conhecido and c = "''123''"
      and resto = "[]" and amb = ambiente_exemplo]
  from t1 i1 s1 c1 have a: "numeros_atribuidos (snd (iteracao ambiente_exemplo mundo_nc_desconhecido)) =
      numeros_atribuidos mundo_nc_desconhecido"
    by blast
  from t2 i2 s2 c2 have b: "numeros_atribuidos (snd (iteracao ambiente_exemplo mundo_nc_conhecido)) =
      numeros_atribuidos mundo_nc_conhecido @ [int (length (lista_contas mundo_nc_conhecido)) + 1]"
    by blast
  from t2 i2 have d: "invariante (snd (iteracao ambiente_exemplo mundo_nc_conhecido))"
    by blast
  show ?thesis
    using i1 i2 s1 s2 c1 c2 n1 a b d unfolding n2 l2 by simp
qed

end
